theory Spec2Isabelle
  imports Main
begin

section \<open>The Sudoku puzzle module (puzzle.c)\<close>

subsection \<open>Data model\<close>

text \<open>
  Modelled from the spec: the header \<open>puzzle.h\<close> that declares \<open>op_result\<close> is not among
  the sources. The constructor names are the ones \<open>main.c\<close> switches on in
  \<open>print_error\<close>; the spec calls them success, OutOfRange (\<open>OP_BADARGS\<close>),
  AlreadyOccupied (\<open>OP_OCCUPIED\<close>), RuleViolation (\<open>OP_ILLEGAL\<close>), AlreadyEmpty
  (\<open>OP_EMPTY\<close>) and Protected (\<open>OP_FIXED\<close>).
\<close>

datatype op_result = OP_OK | OP_BADARGS | OP_OCCUPIED | OP_ILLEGAL | OP_EMPTY | OP_FIXED

text \<open>
  The two file-level tables \<open>static short puzzle[10][10]\<close> and
  \<open>static bool fixed[10][10]\<close>. A location is addressed by the pair (row, column) the C
  code writes between the brackets. Every access of \<open>add_digit\<close>, \<open>erase_digit\<close> and
  \<open>configure\<close> is guarded by \<open>in_range\<close>, so their indices lie in 1..9; pairs with a
  component outside 0..9 are not elements of the C tables and stand for whatever lies
  beyond them. The stored values are 0 and the digits 1..9, far from the limits of
  \<open>short\<close>, so the entries are plain integers; \<open>bool.h\<close> (also absent) supplies \<open>bool\<close>,
  \<open>TRUE\<close> and \<open>FALSE\<close>, taken as the HOL booleans.
\<close>

record board =
  puzzle :: "int \<times> int \<Rightarrow> int"
  fixed :: "int \<times> int \<Rightarrow> bool"

text \<open>Objects of static storage duration start out zeroed.\<close>

definition static_init :: board where
  "static_init = \<lparr>puzzle = (\<lambda>_. 0), fixed = (\<lambda>_. False)\<rparr>"

text \<open>
  What a call can come to: it returns a value, it ends the process through \<open>exit\<close>, or
  it uses the value of a \<open>bool\<close> function whose execution reached the closing brace
  without a \<open>return\<close>, which C leaves undefined.
\<close>

datatype 'a outcome = Return 'a | Exit int | Undefined

subsection \<open>Range check\<close>

definition in_range :: "int \<Rightarrow> bool" where
  "in_range v = (if v \<ge> 1 \<and> v \<le> 9 then True else False)"

subsection \<open>Row and column queries\<close>

text \<open>
  The result of a \<open>bool\<close> function is \<open>Some b\<close> when a \<open>return\<close> statement yields \<open>b\<close>
  and \<open>None\<close> when control reaches the end of the function body without one.

  The body of the \<open>for\<close> loop of \<open>row_contains\<close> is an \<open>if\<close> whose two branches both
  return, so the increment \<open>i++\<close> is never executed: the loop, entered at \<open>i\<close>, returns
  in its first iteration, and only a loop that is not entered falls through.
\<close>

definition row_loop :: "board \<Rightarrow> int \<Rightarrow> int \<Rightarrow> int \<Rightarrow> bool option" where
  "row_loop s row digit i =
     (if i < 10 then (if puzzle s (row, i) = digit then Some True else Some False)
      else None)"

definition row_contains :: "board \<Rightarrow> int \<Rightarrow> int \<Rightarrow> bool option" where
  "row_contains s row digit = row_loop s row digit 1"

definition col_loop :: "board \<Rightarrow> int \<Rightarrow> int \<Rightarrow> int \<Rightarrow> bool option" where
  "col_loop s col digit i =
     (if i < 10 then (if puzzle s (i, col) = digit then Some True else Some False)
      else None)"

definition col_contains :: "board \<Rightarrow> int \<Rightarrow> int \<Rightarrow> bool option" where
  "col_contains s col digit = col_loop s col digit 1"

subsection \<open>Region queries\<close>

text \<open>
  One pair of nested loops of \<open>region_search\<close>:
  \<open>for (i = r1; i <= r2; i++) for (j = c1; j <= c2; j++) if (puzzle[i][j] == digit) return TRUE;\<close>
  It is true when the \<open>return TRUE\<close> is taken.
\<close>

definition scan_block :: "board \<Rightarrow> int \<Rightarrow> int \<Rightarrow> int \<Rightarrow> int \<Rightarrow> int \<Rightarrow> bool" where
  "scan_block s r1 r2 c1 c2 digit =
     list_ex (\<lambda>i. list_ex (\<lambda>j. puzzle s (i, j) = digit) [c1..c2]) [r1..r2]"

text \<open>
  \<open>region_search\<close> is nine \<open>if (region == k)\<close> statements in sequence, each guarding one
  block scan. There is no \<open>return\<close> after the last one.
\<close>

definition region_search :: "board \<Rightarrow> int \<Rightarrow> int \<Rightarrow> bool option" where
  "region_search s region digit =
     (if region = 1 \<and> scan_block s 1 3 1 3 digit then Some True
      else if region = 2 \<and> scan_block s 1 3 4 6 digit then Some True
      else if region = 3 \<and> scan_block s 1 3 7 9 digit then Some True
      else if region = 4 \<and> scan_block s 4 6 1 3 digit then Some True
      else if region = 5 \<and> scan_block s 4 6 4 6 digit then Some True
      else if region = 6 \<and> scan_block s 4 6 7 9 digit then Some True
      else if region = 7 \<and> scan_block s 7 9 1 3 digit then Some True
      else if region = 8 \<and> scan_block s 7 9 4 6 digit then Some True
      else if region = 9 \<and> scan_block s 7 9 7 9 digit then Some True
      else None)"

text \<open>
  In \<open>region_contains\<close> each of the nine region branches is the expression statement
  \<open>region_search(k, digit);\<close>: the call is made, its result is dropped, and control
  runs on to the closing brace. Only the final \<open>else\<close> holds a \<open>return\<close>.
\<close>

definition call_and_fall_off :: "bool option \<Rightarrow> bool option" where
  "call_and_fall_off r = None"

definition region_contains :: "board \<Rightarrow> int \<Rightarrow> int \<Rightarrow> int \<Rightarrow> bool option" where
  "region_contains s row col digit =
     (if row \<ge> 1 \<and> row \<le> 3 \<and> (col \<ge> 1 \<and> col \<le> 3) then
        call_and_fall_off (region_search s 1 digit)
      else if (row \<ge> 1 \<and> row \<le> 3) \<and> (col \<ge> 4 \<and> col \<le> 6) then
        call_and_fall_off (region_search s 2 digit)
      else if (row \<ge> 1 \<and> row \<le> 3) \<and> (col \<ge> 7 \<and> col \<le> 9) then
        call_and_fall_off (region_search s 3 digit)
      else if (row \<ge> 4 \<and> row \<le> 6) \<and> (col \<ge> 1 \<and> col \<le> 3) then
        call_and_fall_off (region_search s 4 digit)
      else if (row \<ge> 4 \<and> row \<le> 6) \<and> (col \<ge> 4 \<and> col \<le> 6) then
        call_and_fall_off (region_search s 5 digit)
      else if (row \<ge> 4 \<and> row \<le> 6) \<and> (col \<ge> 7 \<and> col \<le> 9) then
        call_and_fall_off (region_search s 6 digit)
      else if (row \<ge> 7 \<and> row \<le> 9) \<and> (col \<ge> 1 \<and> col \<le> 3) then
        call_and_fall_off (region_search s 7 digit)
      else if (row \<ge> 7 \<and> row \<le> 9) \<and> (col \<ge> 4 \<and> col \<le> 6) then
        call_and_fall_off (region_search s 8 digit)
      else if (row \<ge> 7 \<and> row \<le> 9) \<and> (col \<ge> 7 \<and> col \<ge> 9) then
        call_and_fall_off (region_search s 9 digit)
      else Some False)"

subsection \<open>Placing and erasing a digit\<close>

text \<open>
  C's \<open>a || b\<close>: \<open>b\<close> is evaluated only when \<open>a\<close> is false. An \<open>if\<close> that tests the
  result of a call which returned no value makes the outcome of the caller
  \<open>Undefined\<close>; \<open>add_digit\<close> and \<open>configure\<close> test such results directly.
\<close>

definition or_else :: "bool option \<Rightarrow> bool option \<Rightarrow> bool option" where
  "or_else a b = (case a of None \<Rightarrow> None | Some True \<Rightarrow> Some True | Some False \<Rightarrow> b)"

definition add_digit :: "board \<Rightarrow> int \<Rightarrow> int \<Rightarrow> int \<Rightarrow> (op_result \<times> board) outcome" where
  "add_digit s row col digit =
     (if \<not> in_range row \<or> \<not> in_range col \<or> \<not> in_range digit then Return (OP_BADARGS, s)
      else if puzzle s (row, col) \<noteq> 0 then Return (OP_OCCUPIED, s)
      else
        (case or_else (row_contains s row digit) (col_contains s col digit) of
           None \<Rightarrow> Undefined
         | Some True \<Rightarrow> Return (OP_ILLEGAL, s)
         | Some False \<Rightarrow>
            (case region_contains s row col digit of
               None \<Rightarrow> Undefined
             | Some True \<Rightarrow> Return (OP_ILLEGAL, s)
             | Some False \<Rightarrow>
                Return (OP_OK, s\<lparr>puzzle := (puzzle s)((row, col) := digit)\<rparr>))))"

definition erase_digit :: "board \<Rightarrow> int \<Rightarrow> int \<Rightarrow> (op_result \<times> board) outcome" where
  "erase_digit s row col =
     (if \<not> in_range row \<or> \<not> in_range col then Return (OP_BADARGS, s)
      else if puzzle s (row, col) = 0 then Return (OP_EMPTY, s)
      else if fixed s (row, col) = True then Return (OP_FIXED, s)
      else Return (OP_OK, s\<lparr>puzzle := (puzzle s)((row, col) := 0)\<rparr>))"

subsection \<open>Initialisation\<close>

text \<open>
  \<open>init_puzzle\<close> has no braces around its loop bodies:
  \<^verbatim>\<open>
  for (i = 1; i < 10; i++)
      for (j = 1; j <10; j++)
          puzzle[i][j] = 0;
          fixed[i][j] = FALSE;
  \<close>
  The inner loop body is the assignment to \<open>puzzle\<close> alone. The assignment to \<open>fixed\<close>
  is the statement after both loops and runs once, with the values \<open>i\<close> and \<open>j\<close> have
  when the loops are left. The loops return the counters with the board.
\<close>

function init_inner :: "board \<Rightarrow> int \<Rightarrow> int \<Rightarrow> board \<times> int" where
  "init_inner s i j =
     (if j < 10 then init_inner (s\<lparr>puzzle := (puzzle s)((i, j) := 0)\<rparr>) i (j + 1)
      else (s, j))"
  by pat_completeness auto
termination
  by (relation "measure (\<lambda>(s, i, j). nat (10 - j))") auto

function init_outer :: "board \<Rightarrow> int \<Rightarrow> int \<Rightarrow> board \<times> int \<times> int" where
  "init_outer s i j =
     (if i < 10 then (case init_inner s i 1 of (s', j') \<Rightarrow> init_outer s' (i + 1) j')
      else (s, i, j))"
  by pat_completeness auto
termination
  by (relation "measure (\<lambda>(s, i, j). nat (10 - i))") auto

text \<open>
  \<open>j\<close> is declared without an initial value; the outer loop is entered (1 < 10), so
  the inner loop sets it before it is read. The 0 passed here is overwritten
  (lemma \<open>init_outer_any_j\<close>).
\<close>

definition init_puzzle :: "board \<Rightarrow> board" where
  "init_puzzle s =
     (case init_outer s 1 0 of (s', i, j) \<Rightarrow> s'\<lparr>fixed := (fixed s')((i, j) := False)\<rparr>)"

subsection \<open>Reading the configuration\<close>

text \<open>
  The file is the list of characters still to be read. \<open>fgets(line_in, 5, f)\<close> reads at
  most 4 characters, stopping after a newline; it stores them from index 0, then a NUL
  character, and leaves the rest of the buffer as it was. At end of file with nothing
  read it returns \<open>NULL\<close> and leaves the buffer alone.
\<close>

fun read_chars :: "nat \<Rightarrow> string \<Rightarrow> string \<times> string" where
  "read_chars 0 cs = ([], cs)"
| "read_chars (Suc n) [] = ([], [])"
| "read_chars (Suc n) (c # cs) =
     (if c = CHR 0x0A then ([c], cs)
      else (case read_chars n cs of (l, r) \<Rightarrow> (c # l, r)))"

fun store :: "(nat \<Rightarrow> char) \<Rightarrow> nat \<Rightarrow> string \<Rightarrow> (nat \<Rightarrow> char)" where
  "store buf k [] = buf(k := CHR 0x00)"
| "store buf k (c # cs) = store (buf(k := c)) (Suc k) cs"

definition fgets :: "(nat \<Rightarrow> char) \<Rightarrow> nat \<Rightarrow> string \<Rightarrow> ((nat \<Rightarrow> char) \<times> string) option" where
  "fgets buf n file =
     (case read_chars (n - 1) file of
        (l, rest) \<Rightarrow> if l = [] then None else Some (store buf 0 l, rest))"

text \<open>
  \<open>line_in[k] - '0'\<close> (\<open>- 48\<close> for the row). Whether \<open>char\<close> is signed changes the
  value only for character codes from 128 on, which lie outside 1..9 either way.
\<close>

definition digit_of :: "char \<Rightarrow> int" where
  "digit_of c = of_char c - 48"

text \<open>
  The body of the \<open>while\<close> loop of \<open>configure\<close>, after \<open>fgets\<close> has filled \<open>line_in\<close>.
  Every failing check prints a message and calls \<open>exit(1)\<close>. The counter \<open>line_num\<close>
  only feeds those messages; output is not part of the model.
\<close>

definition configure_line :: "board \<Rightarrow> (nat \<Rightarrow> char) \<Rightarrow> board outcome" where
  "configure_line s line_in =
     (let row = digit_of (line_in 0);
          col = digit_of (line_in 1);
          digit = digit_of (line_in 2)
      in
        if line_in 3 \<noteq> CHR 0x0A then Exit 1
        else if \<not> in_range row \<or> \<not> in_range col \<or> \<not> in_range digit then Exit 1
        else if puzzle s (row, col) \<noteq> 0 then Exit 1
        else
          (case or_else (row_contains s row digit) (col_contains s col digit) of
             None \<Rightarrow> Undefined
           | Some True \<Rightarrow> Exit 1
           | Some False \<Rightarrow>
              (case region_contains s row col digit of
                 None \<Rightarrow> Undefined
               | Some True \<Rightarrow> Exit 1
               | Some False \<Rightarrow>
                  Return (s\<lparr>puzzle := (puzzle s)((row, col) := digit),
                            fixed := (fixed s)((row, col) := True)\<rparr>))))"

lemma read_chars_length: "read_chars n cs = (l, rest) \<Longrightarrow> length l + length rest = length cs"
  by (induction n cs arbitrary: l rest rule: read_chars.induct)
     (auto split: if_splits prod.splits)

lemma fgets_consumes:
  assumes "fgets buf n cs = Some (buf', rest)"
  shows "length rest < length cs"
proof -
  obtain l where l: "read_chars (n - 1) cs = (l, rest)" and ne: "l \<noteq> []"
    using assms by (auto simp: fgets_def split: prod.splits if_splits)
  from ne have "0 < length l" by simp
  with read_chars_length [OF l] show ?thesis by linarith
qed

text \<open>
  \<open>configure\<close>: the loop runs until \<open>fgets\<close> returns \<open>NULL\<close>. The buffer \<open>line_in\<close> is a
  local array without an initial value, so its first contents are a parameter.
\<close>

function configure :: "board \<Rightarrow> (nat \<Rightarrow> char) \<Rightarrow> string \<Rightarrow> board outcome" where
  "configure s line_in file =
     (case fgets line_in 5 file of
        None \<Rightarrow> Return s
      | Some (buf, rest) \<Rightarrow>
         (case configure_line s buf of
            Return s' \<Rightarrow> configure s' buf rest
          | Exit n \<Rightarrow> Exit n
          | Undefined \<Rightarrow> Undefined))"
  by pat_completeness auto
termination
  by (relation "measure (\<lambda>(s, line_in, file). length file)") (auto dest: fgets_consumes)

subsection \<open>Sequences of interactive operations\<close>

text \<open>
  The command loop of \<open>main\<close> calls \<open>add_digit\<close> and \<open>erase_digit\<close> one after the other on
  the same tables and goes on whatever status comes back.
\<close>

datatype command = Add int int int | Erase int int

fun exec :: "board \<Rightarrow> command \<Rightarrow> (op_result \<times> board) outcome" where
  "exec s (Add r c d) = add_digit s r c d"
| "exec s (Erase r c) = erase_digit s r c"

fun run :: "board \<Rightarrow> command list \<Rightarrow> (op_result list \<times> board) outcome" where
  "run s [] = Return ([], s)"
| "run s (cmd # cmds) =
     (case exec s cmd of
        Return (res, s') \<Rightarrow>
          (case run s' cmds of
             Return (ress, s'') \<Rightarrow> Return (res # ress, s'')
           | Exit n \<Rightarrow> Exit n
           | Undefined \<Rightarrow> Undefined)
      | Exit n \<Rightarrow> Exit n
      | Undefined \<Rightarrow> Undefined)"

subsection \<open>The specification's queries and invariants\<close>

text \<open>
  These definitions follow the words of the specification, not the code: a query
  "scanning the full 9 positions of the respective row/column/region and returning
  whether any holds exactly digit", the region of a cell found by
  \<open>regionRow = (row-1)/3\<close>, \<open>regionCol = (col-1)/3\<close>, and the uniqueness invariants
  I1 to I3 ("each nonzero digit 1..9 appears at most once" in every row, column and
  3x3 region).
\<close>

definition spec_rowContains :: "board \<Rightarrow> int \<Rightarrow> int \<Rightarrow> bool" where
  "spec_rowContains s row digit = list_ex (\<lambda>c. puzzle s (row, c) = digit) [1..9]"

definition spec_colContains :: "board \<Rightarrow> int \<Rightarrow> int \<Rightarrow> bool" where
  "spec_colContains s col digit = list_ex (\<lambda>r. puzzle s (r, col) = digit) [1..9]"

definition block_origin :: "int \<Rightarrow> int" where
  "block_origin v = 3 * ((v - 1) div 3) + 1"

definition spec_regionContains :: "board \<Rightarrow> int \<Rightarrow> int \<Rightarrow> int \<Rightarrow> bool" where
  "spec_regionContains s row col digit =
     list_ex (\<lambda>i. list_ex (\<lambda>j. puzzle s (i, j) = digit)
                [block_origin col..block_origin col + 2])
             [block_origin row..block_origin row + 2]"

definition count_in_row :: "board \<Rightarrow> int \<Rightarrow> int \<Rightarrow> nat" where
  "count_in_row s r d = length (filter (\<lambda>c. puzzle s (r, c) = d) [1..9])"

definition count_in_col :: "board \<Rightarrow> int \<Rightarrow> int \<Rightarrow> nat" where
  "count_in_col s c d = length (filter (\<lambda>r. puzzle s (r, c) = d) [1..9])"

definition count_in_region :: "board \<Rightarrow> int \<Rightarrow> int \<Rightarrow> int \<Rightarrow> nat" where
  "count_in_region s r0 c0 d =
     length (filter (\<lambda>p. puzzle s p = d) (List.product [r0..r0 + 2] [c0..c0 + 2]))"

definition uniqueness :: "board \<Rightarrow> bool" where
  "uniqueness s =
     list_all (\<lambda>d.
        list_all (\<lambda>r. count_in_row s r d \<le> 1) [1..9] \<and>
        list_all (\<lambda>c. count_in_col s c d \<le> 1) [1..9] \<and>
        list_all (\<lambda>r0. list_all (\<lambda>c0. count_in_region s r0 c0 d \<le> 1) [1, 4, 7]) [1, 4, 7])
      [1..9]"

subsection \<open>Concrete boards and inputs\<close>

text \<open>One possible content of the uninitialised buffer \<open>line_in\<close>.\<close>

definition blank_line :: "nat \<Rightarrow> char" where
  "blank_line = (\<lambda>_. CHR 0x00)"

text \<open>The zeroed tables with the digit \<open>d\<close> written at one cell.\<close>

definition placed :: "int \<Rightarrow> int \<Rightarrow> int \<Rightarrow> board" where
  "placed r c d = static_init\<lparr>puzzle := (puzzle static_init)((r, c) := d)\<rparr>"

text \<open>The tables after the configuration line \<open>775\<close>: a fixed 5 at row 7, column 7.\<close>

definition seeded_775 :: board where
  "seeded_775 = static_init\<lparr>puzzle := (puzzle static_init)((7, 7) := 5),
                             fixed := (fixed static_init)((7, 7) := True)\<rparr>"

text \<open>Commands aimed at one cell, and the status each gets when that cell is fixed.\<close>

fun targets :: "int \<Rightarrow> int \<Rightarrow> command \<Rightarrow> bool" where
  "targets r c (Add r' c' d) = (r' = r \<and> c' = c)"
| "targets r c (Erase r' c') = (r' = r \<and> c' = c)"

fun rejection :: "command \<Rightarrow> op_result" where
  "rejection (Add r c d) = (if 1 \<le> d \<and> d \<le> 9 then OP_OCCUPIED else OP_BADARGS)"
| "rejection (Erase r c) = OP_FIXED"

text \<open>
  The lifecycle of the specification marks a cell fixed only together with a digit:
  on a well-formed board every fixed cell of the 9x9 grid is non-empty.
\<close>

definition fixed_cells_filled :: "board \<Rightarrow> bool" where
  "fixed_cells_filled s =
     list_all (\<lambda>r. list_all (\<lambda>c. if fixed s (r, c) then puzzle s (r, c) \<noteq> 0 else True) [1..9])
       [1..9]"

text \<open>A board with one more digit written.\<close>

definition placed_on :: "board \<Rightarrow> int \<Rightarrow> int \<Rightarrow> int \<Rightarrow> board" where
  "placed_on s r c d = s\<lparr>puzzle := (puzzle s)((r, c) := d)\<rparr>"

section \<open>Basic facts\<close>

lemma in_range_iff: "in_range v \<longleftrightarrow> 1 \<le> v \<and> v \<le> 9"
  by (simp add: in_range_def)

lemma row_contains_first: "row_contains s row digit = Some (puzzle s (row, 1) = digit)"
  by (simp add: row_contains_def row_loop_def)

lemma col_contains_first: "col_contains s col digit = Some (puzzle s (1, col) = digit)"
  by (simp add: col_contains_def col_loop_def)

lemma region_contains_cases:
  assumes "in_range row" "in_range col"
  shows "region_contains s row col digit =
           (if 7 \<le> row \<and> 7 \<le> col \<and> col < 9 then Some False else None)"
proof -
  have r: "row \<in> {1, 2, 3, 4, 5, 6, 7, 8, 9}"
    using assms(1) unfolding in_range_iff by auto
  have c: "col \<in> {1, 2, 3, 4, 5, 6, 7, 8, 9}"
    using assms(2) unfolding in_range_iff by auto
  from r c show ?thesis
    by (elim insertE emptyE; simp add: region_contains_def call_and_fall_off_def)
qed

declare init_inner.simps [simp del] init_outer.simps [simp del] configure.simps [simp del]

lemma add_digit_OK_D:
  assumes "add_digit s r c d = Return (OP_OK, s')"
  shows "s' = s\<lparr>puzzle := (puzzle s)((r, c) := d)\<rparr>" and "puzzle s (r, c) = 0"
    and "in_range r" and "in_range c" and "in_range d"
  using assms by (auto simp: add_digit_def split: if_splits option.splits bool.splits)

lemma add_digit_never_exits: "add_digit s r c d \<noteq> Exit n"
  by (auto simp: add_digit_def split: option.splits bool.splits)

lemma erase_digit_returns: "\<exists>res s'. erase_digit s r c = Return (res, s')"
  by (simp add: erase_digit_def)

subsection \<open>The initialisation loops\<close>

lemma init_inner_eq:
  "init_inner s i j =
     (s\<lparr>puzzle := (\<lambda>p. if fst p = i \<and> j \<le> snd p \<and> snd p < 10 then 0 else puzzle s p)\<rparr>,
      max j 10)"
proof (induction s i j rule: init_inner.induct)
  case (1 s i j)
  show ?case
  proof (cases "j < 10")
    case True
    with "1.IH" show ?thesis
      by (subst init_inner.simps) (auto simp: fun_eq_iff intro!: board.equality)
  next
    case False
    then show ?thesis
      by (subst init_inner.simps) (auto simp: fun_eq_iff intro!: board.equality)
  qed
qed

lemma init_outer_eq:
  "init_outer s i j =
     (s\<lparr>puzzle := (\<lambda>p. if i \<le> fst p \<and> fst p < 10 \<and> 1 \<le> snd p \<and> snd p < 10 then 0
                         else puzzle s p)\<rparr>,
      max i 10, if i < 10 then 10 else j)"
proof (induction s i j rule: init_outer.induct)
  case (1 s i j)
  show ?case
  proof (cases "i < 10")
    case True
    with "1.IH" [OF True init_inner_eq [symmetric]] show ?thesis
      by (subst init_outer.simps) (auto simp: init_inner_eq fun_eq_iff intro!: board.equality)
  next
    case False
    then show ?thesis
      by (subst init_outer.simps) (auto simp: fun_eq_iff intro!: board.equality)
  qed
qed

lemma init_outer_any_j: "init_outer s 1 j = init_outer s 1 j'"
  by (simp add: init_outer_eq)

lemma init_puzzle_eq:
  "init_puzzle s =
     s\<lparr>puzzle := (\<lambda>p. if 1 \<le> fst p \<and> fst p < 10 \<and> 1 \<le> snd p \<and> snd p < 10 then 0
                        else puzzle s p),
       fixed := (fixed s)((10, 10) := False)\<rparr>"
  by (simp add: init_puzzle_def init_outer_eq)

subsection \<open>One round of the configuration loop\<close>

lemma configure_unfold:
  "fgets line_in 5 input = Some (buf, rest) \<Longrightarrow>
     configure s line_in input =
       (case configure_line s buf of
          Return s' \<Rightarrow> configure s' buf rest
        | Exit n \<Rightarrow> Exit n
        | Undefined \<Rightarrow> Undefined)"
  by (subst configure.simps) simp

lemma configure_eof: "configure s line_in [] = Return s"
  by (subst configure.simps) (simp add: fgets_def eval_nat_numeral)

lemma fgets_full_line:
  "c0 \<noteq> CHR 0x0A \<Longrightarrow> c1 \<noteq> CHR 0x0A \<Longrightarrow> c2 \<noteq> CHR 0x0A \<Longrightarrow>
     fgets buf 5 (c0 # c1 # c2 # c3 # rest) =
       Some (buf(0 := c0, 1 := c1, 2 := c2, 3 := c3, 4 := CHR 0x00), rest)"
  by (simp add: fgets_def eval_nat_numeral)

lemma configure_775: "configure static_init blank_line ''775\<newline>'' = Return seeded_775"
proof -
  have "configure_line static_init
          (blank_line(0 := CHR ''7'', 1 := CHR ''7'', 2 := CHR ''5'', 3 := CHR 0x0A, 4 := CHR 0x00)) =
        Return seeded_775"
    by (simp add: configure_line_def digit_of_def in_range_def row_contains_first
        col_contains_first region_contains_def or_else_def static_init_def seeded_775_def)
  then show ?thesis
    by (simp add: configure_unfold [OF fgets_full_line] configure_eof)
qed

subsection \<open>Commands aimed at a fixed cell\<close>

lemma exec_on_fixed:
  assumes "in_range r" "in_range c" "fixed s (r, c)" "puzzle s (r, c) \<noteq> 0" "targets r c cmd"
  shows "exec s cmd = Return (rejection cmd, s)"
  using assms by (cases cmd) (auto simp: add_digit_def erase_digit_def in_range_iff)

lemma run_on_fixed:
  assumes "in_range r" "in_range c" "fixed s (r, c)" "puzzle s (r, c) \<noteq> 0"
  shows "list_all (targets r c) cmds \<Longrightarrow> run s cmds = Return (map rejection cmds, s)"
  by (induction cmds) (simp_all add: exec_on_fixed [OF assms])

lemmas upto_from_1 = upto.simps [of 1 "numeral n"] for n

lemma or_else_Some: "or_else (Some a) (Some b) = Some (a \<or> b)"
  by (cases a) (simp_all add: or_else_def)

lemma configure_line_checks:
  "configure_line s buf =
     (if buf 3 \<noteq> CHR 0x0A then Exit 1
      else if \<not> in_range (digit_of (buf 0)) \<or> \<not> in_range (digit_of (buf 1)) \<or>
              \<not> in_range (digit_of (buf 2)) then Exit 1
      else if puzzle s (digit_of (buf 0), digit_of (buf 1)) \<noteq> 0 then Exit 1
      else if puzzle s (digit_of (buf 0), 1) = digit_of (buf 2) \<or>
              puzzle s (1, digit_of (buf 1)) = digit_of (buf 2) then Exit 1
      else (case region_contains s (digit_of (buf 0)) (digit_of (buf 1)) (digit_of (buf 2)) of
              None \<Rightarrow> Undefined
            | Some True \<Rightarrow> Exit 1
            | Some False \<Rightarrow>
               Return (s\<lparr>puzzle := (puzzle s)((digit_of (buf 0), digit_of (buf 1)) := digit_of (buf 2)),
                         fixed := (fixed s)((digit_of (buf 0), digit_of (buf 1)) := True)\<rparr>)))"
  by (simp add: configure_line_def Let_def row_contains_first col_contains_first or_else_Some
      del: One_nat_def)

subsection \<open>Fixed cells stay non-empty\<close>

lemma fixed_cells_filled_iff:
  "fixed_cells_filled s \<longleftrightarrow>
     (\<forall>r c. 1 \<le> r \<and> r \<le> 9 \<and> 1 \<le> c \<and> c \<le> 9 \<and> fixed s (r, c) \<longrightarrow> puzzle s (r, c) \<noteq> 0)"
  by (auto simp: fixed_cells_filled_def list_all_iff)

lemma fixed_cells_filled_init: "fixed_cells_filled (init_puzzle static_init)"
  by (simp add: fixed_cells_filled_iff init_puzzle_eq static_init_def)

lemma add_digit_keeps_fixed_cells_filled:
  assumes "fixed_cells_filled s" "add_digit s r c d = Return (res, s')"
  shows "fixed_cells_filled s'"
  using assms
  by (auto simp: fixed_cells_filled_iff add_digit_def in_range_iff
      split: if_splits option.splits bool.splits)

lemma erase_digit_keeps_fixed_cells_filled:
  assumes "fixed_cells_filled s" "erase_digit s r c = Return (res, s')"
  shows "fixed_cells_filled s'"
  using assms
  by (auto simp: fixed_cells_filled_iff erase_digit_def split: if_splits)

lemma run_keeps_fixed_cells_filled:
  "fixed_cells_filled s \<Longrightarrow> run s cmds = Return (ress, s') \<Longrightarrow> fixed_cells_filled s'"
proof (induction cmds arbitrary: s ress)
  case Nil
  then show ?case by simp
next
  case (Cons cmd cmds)
  from Cons.prems(2) obtain res s1 ress1 where
    e: "exec s cmd = Return (res, s1)" and r: "run s1 cmds = Return (ress1, s')"
    by (auto split: outcome.splits prod.splits)
  from e Cons.prems(1) have "fixed_cells_filled s1"
    by (cases cmd)
       (auto dest: add_digit_keeps_fixed_cells_filled erase_digit_keeps_fixed_cells_filled)
  with Cons.IH r show ?case by blast
qed

lemma configure_line_keeps_fixed_cells_filled:
  assumes "fixed_cells_filled s" "configure_line s buf = Return s'"
  shows "fixed_cells_filled s'"
  using assms unfolding configure_line_checks
  by (auto simp: fixed_cells_filled_iff in_range_iff split: if_splits option.splits bool.splits)

lemma configure_keeps_fixed_cells_filled:
  "fixed_cells_filled s \<Longrightarrow> configure s line_in input = Return s' \<Longrightarrow> fixed_cells_filled s'"
proof (induction s line_in input rule: configure.induct)
  case (1 s line_in input)
  show ?case
  proof (cases "fgets line_in 5 input")
    case None
    with "1.prems" show ?thesis
      by (subst (asm) configure.simps) simp
  next
    case (Some a)
    obtain buf rest where a: "a = (buf, rest)" by (cases a)
    from "1.prems"(2) Some a obtain s1 where
      l: "configure_line s buf = Return s1" and c: "configure s1 buf rest = Return s'"
      by (subst (asm) configure.simps) (auto split: outcome.splits)
    from configure_line_keeps_fixed_cells_filled [OF "1.prems"(1) l]
    have "fixed_cells_filled s1" .
    with "1.IH" Some a l c show ?thesis by blast
  qed
qed

section \<open>The claims\<close>

subsection \<open>Row and column scans\<close>

lemma placed_785_reachable: "add_digit static_init 7 8 5 = Return (OP_OK, placed 7 8 5)"
  by (simp add: add_digit_def in_range_def row_contains_first col_contains_first
      region_contains_def or_else_def static_init_def placed_def)

lemma placed_875_reachable: "add_digit static_init 8 7 5 = Return (OP_OK, placed 8 7 5)"
  by (simp add: add_digit_def in_range_def row_contains_first col_contains_first
      region_contains_def or_else_def static_init_def placed_def)

lemma placed_885_reachable: "add_digit static_init 8 8 5 = Return (OP_OK, placed 8 8 5)"
  by (simp add: add_digit_def in_range_def row_contains_first col_contains_first
      region_contains_def or_else_def static_init_def placed_def)

text \<open>
  Claim C1: \<open>rowContains(row, digit)\<close> is true iff one of the 9 columns of the row holds
  the digit, and \<open>colContains\<close> likewise for the 9 rows of the column; the scan does not
  stop at the first position.

  The code stops at the first position. On the board that \<open>add_digit(7, 8, 5)\<close> builds
  from the zeroed tables, row 7 holds a 5 in column 8, the full scan of the
  specification finds it, and \<open>row_contains(7, 5)\<close> returns \<open>FALSE\<close> because column 1 is
  empty; the same for column 7 after \<open>add_digit(8, 7, 5)\<close>.
\<close>

theorem row_col_contains_first_cell_only:
  "puzzle (placed 7 8 5) (7, 8) = 5 \<and>
   spec_rowContains (placed 7 8 5) 7 5 \<and>
   row_contains (placed 7 8 5) 7 5 = Some False \<and>
   puzzle (placed 8 7 5) (8, 7) = 5 \<and>
   spec_colContains (placed 8 7 5) 7 5 \<and>
   col_contains (placed 8 7 5) 7 5 = Some False"
  by (simp add: placed_def static_init_def spec_rowContains_def spec_colContains_def
      row_contains_first col_contains_first upto_from_1)

subsection \<open>Region scan\<close>

text \<open>
  Claim C2: for each of the 81 cells and every digit, \<open>regionContains(row, col, digit)\<close>
  gives the answer of a direct scan of the 3x3 block of the cell, also at the
  boundary cells (3,3), (4,4), (7,7) and (7,9).

  At (7,7) the test for region 9 reads \<open>col >= 7 && col >= 9\<close>, which is false for
  columns 7 and 8, so the final \<open>else\<close> returns \<open>FALSE\<close> without looking at the board.
  With a 5 at (8,8), placed by \<open>add_digit(8, 8, 5)\<close>, the block of (7,7) holds the digit
  and \<open>region_contains(7, 7, 5)\<close> returns \<open>FALSE\<close>.
\<close>

theorem region_contains_misses_block:
  "puzzle (placed 8 8 5) (8, 8) = 5 \<and>
   spec_regionContains (placed 8 8 5) 7 7 5 \<and>
   region_contains (placed 8 8 5) 7 7 5 = Some False \<and>
   region_search (placed 8 8 5) 9 5 = Some True"
  by (simp add: placed_def static_init_def spec_regionContains_def block_origin_def
      region_contains_def region_search_def scan_block_def upto_from_1)

text \<open>
  Claim C10: for every row and column in 1..9 and every digit, \<open>region_contains\<close> and the
  \<open>region_search\<close> it calls reach an explicit \<open>return\<close>, so the result is always
  defined.

  On the zeroed tables \<open>region_contains(1, 1, 5)\<close> calls \<open>region_search(1, 5)\<close>; the search
  finds nothing and runs off its end, and \<open>region_contains\<close> drops the result and runs
  off its own end. The same happens at (7,9), and in the caller even when the search
  does return \<open>TRUE\<close>.
\<close>

theorem region_contains_falls_off_end:
  "region_search static_init 1 5 = None \<and>
   region_contains static_init 1 1 5 = None \<and>
   region_contains static_init 7 9 5 = None \<and>
   region_search (placed 1 1 5) 1 5 = Some True \<and>
   region_contains (placed 1 1 5) 1 1 5 = None"
  by (simp add: placed_def static_init_def region_contains_def region_search_def
      scan_block_def call_and_fall_off_def upto_from_1)

subsection \<open>Uniqueness of digits\<close>

text \<open>
  Claim C3: from a board that satisfies the row, column and region uniqueness
  invariants, any sequence of place and erase operations leaves each digit 1..9 at
  most once in every row, every column and every 3x3 region.

  From the zeroed tables, which satisfy the invariants, \<open>add_digit(7, 7, 5)\<close> and then
  \<open>add_digit(7, 8, 5)\<close> both return \<open>OP_OK\<close>: the row check looks at column 1 only, the
  column check at row 1 only, and the region check returns \<open>FALSE\<close> for columns 7 and 8
  of the last band. Row 7 and the last region then hold the digit 5 twice.
\<close>

theorem uniqueness_broken_by_two_adds:
  "uniqueness static_init \<and>
   run static_init [Add 7 7 5, Add 7 8 5] =
     Return ([OP_OK, OP_OK],
             static_init\<lparr>puzzle := (puzzle static_init)((7, 7) := 5, (7, 8) := 5)\<rparr>) \<and>
   count_in_row (static_init\<lparr>puzzle := (puzzle static_init)((7, 7) := 5, (7, 8) := 5)\<rparr>) 7 5 = 2 \<and>
   count_in_region (static_init\<lparr>puzzle := (puzzle static_init)((7, 7) := 5, (7, 8) := 5)\<rparr>) 7 7 5 = 2 \<and>
   \<not> uniqueness (static_init\<lparr>puzzle := (puzzle static_init)((7, 7) := 5, (7, 8) := 5)\<rparr>)"
proof -
  let ?s2 = "static_init\<lparr>puzzle := (puzzle static_init)((7, 7) := 5, (7, 8) := 5)\<rparr>"
  have u0: "uniqueness static_init"
    by (simp add: uniqueness_def count_in_row_def count_in_col_def count_in_region_def
        static_init_def upto_from_1)
  have r: "run static_init [Add 7 7 5, Add 7 8 5] = Return ([OP_OK, OP_OK], ?s2)"
    by (simp add: add_digit_def in_range_def row_contains_first col_contains_first
        region_contains_def or_else_def static_init_def)
  have cr: "count_in_row ?s2 7 5 = 2"
    by (simp add: count_in_row_def static_init_def upto_from_1)
  have cg: "count_in_region ?s2 7 7 5 = 2"
    by (simp add: count_in_region_def static_init_def upto_from_1)
  have "count_in_row ?s2 7 5 \<le> 1" if "uniqueness ?s2"
    using that by (simp add: uniqueness_def list_all_iff)
  with cr have u2: "\<not> uniqueness ?s2"
    by auto
  from u0 r cr cg u2 show ?thesis by simp
qed

subsection \<open>Initialisation\<close>

text \<open>
  Claim C4: after \<open>initialize()\<close> every cell of the 9x9 board has digit 0 and fixed flag
  false, whatever the board was before.

  \<open>init_puzzle\<close> zeroes the digits of the 81 cells but its assignment
  \<open>fixed[i][j] = FALSE\<close> stands outside the loops: it runs once, at \<open>i = 10\<close>, \<open>j = 10\<close>,
  and no fixed flag of the board is cleared. After the configuration line \<open>775\<close> and a
  second \<open>init_puzzle\<close>, cell (7,7) is empty and still fixed.
\<close>

theorem init_puzzle_keeps_fixed_flags:
  "configure static_init blank_line ''775\<newline>'' = Return seeded_775 \<and>
   fixed seeded_775 (7, 7) \<and>
   puzzle (init_puzzle seeded_775) (7, 7) = 0 \<and>
   fixed (init_puzzle seeded_775) (7, 7) \<and>
   fixed (init_puzzle seeded_775) = (fixed seeded_775)((10, 10) := False)"
proof -
  have "fixed seeded_775 (7, 7)"
    by (simp add: seeded_775_def)
  moreover have "puzzle (init_puzzle seeded_775) (7, 7) = 0"
    by (simp add: init_puzzle_eq)
  moreover have "fixed (init_puzzle seeded_775) = (fixed seeded_775)((10, 10) := False)"
    by (simp add: init_puzzle_eq)
  moreover have "fixed (init_puzzle seeded_775) (7, 7)"
    by (simp add: init_puzzle_eq seeded_775_def)
  ultimately show ?thesis
    using configure_775 by simp
qed

subsection \<open>Fixed cells\<close>

text \<open>
  Claim C5: for a cell marked fixed (and so non-empty), every erase aimed at it
  returns Protected and every place aimed at it returns AlreadyOccupied, and any
  number of such calls leaves its digit and its fixed flag unchanged.

  \<open>add_digit\<close> tests the range of its three arguments before it looks at the cell, so
  a place with a digit outside 1..9 returns \<open>OP_BADARGS\<close>, not \<open>OP_OCCUPIED\<close>.
\<close>

theorem place_on_fixed_cell_bad_digit:
  "fixed seeded_775 (7, 7) \<and>
   puzzle seeded_775 (7, 7) = 5 \<and>
   add_digit seeded_775 7 7 0 = Return (OP_BADARGS, seeded_775) \<and>
   add_digit seeded_775 7 7 0 \<noteq> Return (OP_OCCUPIED, seeded_775)"
  by (simp add: add_digit_def in_range_def seeded_775_def static_init_def)

text \<open>
  Claim C5, amended: for a fixed, non-empty cell (r, c) with r and c in 1..9, an erase
  aimed at it returns \<open>OP_FIXED\<close>, a place aimed at it returns \<open>OP_OCCUPIED\<close> when the
  digit is in 1..9 and \<open>OP_BADARGS\<close> otherwise, and every sequence of such calls
  returns these statuses and leaves the whole board, the cell's digit and fixed flag
  included, as it was.
\<close>

theorem fixed_cell_rejects_place_and_erase:
  assumes "1 \<le> r" "r \<le> 9" "1 \<le> c" "c \<le> 9"
    and "fixed s (r, c)" "puzzle s (r, c) \<noteq> 0"
  shows "erase_digit s r c = Return (OP_FIXED, s) \<and>
         add_digit s r c d =
           Return (if 1 \<le> d \<and> d \<le> 9 then OP_OCCUPIED else OP_BADARGS, s) \<and>
         (list_all (targets r c) cmds \<longrightarrow> run s cmds = Return (map rejection cmds, s))"
proof -
  have r: "in_range r" and c: "in_range c"
    using assms by (simp_all add: in_range_iff)
  have "erase_digit s r c = Return (OP_FIXED, s)"
    using exec_on_fixed [OF r c assms(5,6), of "Erase r c"] by simp
  moreover have "add_digit s r c d =
      Return (if 1 \<le> d \<and> d \<le> 9 then OP_OCCUPIED else OP_BADARGS, s)"
    using exec_on_fixed [OF r c assms(5,6), of "Add r c d"] by simp
  ultimately show ?thesis
    using run_on_fixed [OF r c assms(5,6)] by simp
qed

theorem fixed_cell_rejects_place_and_erase_witness:
  "erase_digit seeded_775 7 7 = Return (OP_FIXED, seeded_775) \<and>
   add_digit seeded_775 7 7 3 = Return (OP_OCCUPIED, seeded_775) \<and>
   run seeded_775 [Erase 7 7, Add 7 7 3, Add 7 7 0, Erase 7 7] =
     Return ([OP_FIXED, OP_OCCUPIED, OP_BADARGS, OP_FIXED], seeded_775)"
proof -
  let ?cmds = "[Erase 7 7, Add 7 7 3, Add 7 7 0, Erase 7 7]"
  have f: "fixed seeded_775 (7, 7)" and p: "puzzle seeded_775 (7, 7) \<noteq> 0"
    by (simp_all add: seeded_775_def)
  have t: "erase_digit seeded_775 7 7 = Return (OP_FIXED, seeded_775) \<and>
      add_digit seeded_775 7 7 3 =
        Return (if (1::int) \<le> 3 \<and> (3::int) \<le> 9 then OP_OCCUPIED else OP_BADARGS, seeded_775) \<and>
      (list_all (targets 7 7) ?cmds \<longrightarrow>
         run seeded_775 ?cmds = Return (map rejection ?cmds, seeded_775))"
    by (rule fixed_cell_rejects_place_and_erase [OF _ _ _ _ f p]) simp_all
  have la: "list_all (targets 7 7) ?cmds"
    by simp
  have mp: "map rejection ?cmds = [OP_FIXED, OP_OCCUPIED, OP_BADARGS, OP_FIXED]"
    by simp
  from t la have "run seeded_775 ?cmds = Return (map rejection ?cmds, seeded_775)"
    by blast
  then have r: "run seeded_775 ?cmds =
      Return ([OP_FIXED, OP_OCCUPIED, OP_BADARGS, OP_FIXED], seeded_775)"
    by (simp only: mp)
  from t have e: "erase_digit seeded_775 7 7 = Return (OP_FIXED, seeded_775)"
    by blast
  from t have "add_digit seeded_775 7 7 3 =
      Return (if (1::int) \<le> 3 \<and> (3::int) \<le> 9 then OP_OCCUPIED else OP_BADARGS, seeded_775)"
    by blast
  then have a: "add_digit seeded_775 7 7 3 = Return (OP_OCCUPIED, seeded_775)"
    by simp
  from e a r show ?thesis
    by blast
qed

subsection \<open>Failures of the seeding operation\<close>

text \<open>
  Claim C6: every board operation returns its outcome as a tagged value and never
  aborts the process; in particular the seeding operation, on a precondition
  violation, returns a distinguishable failure to the caller instead of terminating.

  Seeding is \<open>configure\<close>, a \<open>void\<close> function that calls \<open>exit(1)\<close> at each failing check.
  The line \<open>003\<close> names row 0: the process ends.
\<close>

theorem configure_exits_on_bad_row:
  "configure static_init blank_line ''003\<newline>'' = Exit 1"
proof -
  have "configure_line static_init
          (blank_line(0 := CHR ''0'', 1 := CHR ''0'', 2 := CHR ''3'', 3 := CHR 0x0A, 4 := CHR 0x00)) =
        Exit 1"
    by (simp add: configure_line_def digit_of_def in_range_def)
  then show ?thesis
    by (simp add: configure_unfold [OF fgets_full_line])
qed

text \<open>
  Claim C6, amended: \<open>erase_digit\<close> always returns a status with the board, and
  \<open>add_digit\<close> never ends the process. \<open>configure\<close> returns no status: when the line it
  has read does not end in a newline at index 3, or names a row, column or digit
  outside 1..9, or an occupied cell, or a digit that its row or column check finds
  (in column 1 of the row, or row 1 of the column), it ends the process with
  \<open>exit(1)\<close>.
\<close>

theorem configure_exits_on_violation:
  assumes "fgets line_in 5 input = Some (buf, rest)"
    and "row = digit_of (buf 0)" "col = digit_of (buf 1)" "digit = digit_of (buf 2)"
    and "buf 3 \<noteq> CHR 0x0A \<or> row < 1 \<or> 9 < row \<or> col < 1 \<or> 9 < col \<or> digit < 1 \<or> 9 < digit \<or>
         puzzle s (row, col) \<noteq> 0 \<or> puzzle s (row, 1) = digit \<or> puzzle s (1, col) = digit"
  shows "configure s line_in input = Exit 1 \<and>
         (\<exists>res s'. erase_digit s r c = Return (res, s')) \<and>
         (\<forall>n. add_digit s r c d \<noteq> Exit n)"
proof -
  have "configure_line s buf = Exit 1"
    using assms(5) unfolding assms(2-4) configure_line_checks in_range_iff
    by auto
  then have "configure s line_in input = Exit 1"
    by (simp add: configure_unfold [OF assms(1)])
  then show ?thesis
    using erase_digit_returns [of s r c] add_digit_never_exits [of s r c d] by simp
qed

theorem configure_exits_on_violation_witness:
  "configure seeded_775 blank_line ''775\<newline>'' = Exit 1 \<and>
   (\<exists>res s'. erase_digit seeded_775 7 7 = Return (res, s')) \<and>
   (\<forall>n. add_digit seeded_775 7 7 5 \<noteq> Exit n)"
proof -
  let ?buf = "blank_line(0 := CHR ''7'', 1 := CHR ''7'', 2 := CHR ''5'', 3 := CHR 0x0A, 4 := CHR 0x00)"
  have g: "fgets blank_line 5 ''775\<newline>'' = Some (?buf, [])"
    by (rule fgets_full_line) simp_all
  have d0: "(7::int) = digit_of (?buf 0)" and d1: "(7::int) = digit_of (?buf 1)"
    and d2: "(5::int) = digit_of (?buf 2)"
    by (simp_all add: digit_of_def)
  have occ: "puzzle seeded_775 (7, 7) \<noteq> 0"
    by (simp add: seeded_775_def)
  show ?thesis
    by (rule configure_exits_on_violation [OF g d0 d1 d2]) (simp add: occ)
qed

subsection \<open>Arguments out of range\<close>

text \<open>
  Claim C7: for every board and every (r, c, d) with at least one of r, c, d outside
  1..9, \<open>place(r, c, d)\<close> returns OutOfRange and the whole board, digits and fixed
  flags, is unchanged.
\<close>

theorem add_digit_out_of_range:
  assumes "r < 1 \<or> 9 < r \<or> c < 1 \<or> 9 < c \<or> d < 1 \<or> 9 < d"
  shows "add_digit s r c d = Return (OP_BADARGS, s)"
  using assms by (auto simp: add_digit_def in_range_iff)

theorem add_digit_out_of_range_witness:
  "add_digit seeded_775 7 10 5 = Return (OP_BADARGS, seeded_775)"
  using add_digit_out_of_range [of 7 10 5 seeded_775] by simp

subsection \<open>Placing, then erasing\<close>

text \<open>
  Claim C8: for every board and every cell (r, c) that is not fixed, if
  \<open>place(r, c, d)\<close> succeeds then the \<open>erase(r, c)\<close> that follows succeeds, makes the cell
  empty again and leaves the digit and fixed flag of every other cell unchanged.

  The first part is about \<open>erase_digit\<close> alone, on each of the 81 cells: on any board
  where the cell holds a digit and is not fixed, it returns \<open>OP_OK\<close> and the board with
  that one digit set to 0. The second part applies it to the board a successful place
  leaves, whose only change is the digit \<open>d\<close> written into the empty cell: on each of
  the 81 cells and for each digit 1..9 the erase returns \<open>OP_OK\<close> and gives back the
  board before the place. The third part ties this to \<open>add_digit\<close>: whenever it returns
  \<open>OP_OK\<close>, the board it returns is that one, so the erase that follows restores the
  board.
\<close>

theorem place_then_erase_restores:
  assumes "\<not> fixed s (r, c)" and "1 \<le> r" "r \<le> 9" "1 \<le> c" "c \<le> 9"
  shows "(puzzle s (r, c) \<noteq> 0 \<longrightarrow>
            erase_digit s r c = Return (OP_OK, s\<lparr>puzzle := (puzzle s)((r, c) := 0)\<rparr>)) \<and>
         (puzzle s (r, c) = 0 \<and> 1 \<le> d \<and> d \<le> 9 \<longrightarrow>
            erase_digit (s\<lparr>puzzle := (puzzle s)((r, c) := d)\<rparr>) r c = Return (OP_OK, s) \<and>
            (\<forall>p. p \<noteq> (r, c) \<longrightarrow>
                 puzzle s p = puzzle (s\<lparr>puzzle := (puzzle s)((r, c) := d)\<rparr>) p) \<and>
            (\<forall>p. fixed s p = fixed (s\<lparr>puzzle := (puzzle s)((r, c) := d)\<rparr>) p)) \<and>
         (add_digit s r c d = Return (OP_OK, s') \<longrightarrow>
            s' = s\<lparr>puzzle := (puzzle s)((r, c) := d)\<rparr> \<and>
            puzzle s (r, c) = 0 \<and> 1 \<le> d \<and> d \<le> 9 \<and>
            erase_digit s' r c = Return (OP_OK, s))"
proof -
  have rc: "in_range r" "in_range c"
    using assms(2-5) by (simp_all add: in_range_iff)
  have filled: "erase_digit s r c = Return (OP_OK, s\<lparr>puzzle := (puzzle s)((r, c) := 0)\<rparr>)"
    if "puzzle s (r, c) \<noteq> 0"
    using that assms(1) rc by (simp add: erase_digit_def)
  have restore: "erase_digit (s\<lparr>puzzle := (puzzle s)((r, c) := d)\<rparr>) r c = Return (OP_OK, s)"
    if "puzzle s (r, c) = 0" "1 \<le> d" "d \<le> 9"
  proof -
    from that(2) have "d \<noteq> 0" by simp
    moreover have "s\<lparr>puzzle := (puzzle s)((r, c) := d), puzzle := ((puzzle s)((r, c) := d))((r, c) := 0)\<rparr> = s"
      using that(1) by (simp add: fun_upd_idem)
    ultimately show ?thesis
      using assms(1) rc by (simp add: erase_digit_def)
  qed
  have placed: "s' = s\<lparr>puzzle := (puzzle s)((r, c) := d)\<rparr> \<and> puzzle s (r, c) = 0 \<and>
      1 \<le> d \<and> d \<le> 9 \<and> erase_digit s' r c = Return (OP_OK, s)"
    if ok: "add_digit s r c d = Return (OP_OK, s')"
  proof -
    note d = add_digit_OK_D [OF ok]
    from d(5) have dr: "1 \<le> d" "d \<le> 9"
      by (simp_all add: in_range_iff)
    from restore [OF d(2) dr] d(1,2) dr show ?thesis
      by simp
  qed
  from filled restore placed show ?thesis
    by simp
qed

theorem place_then_erase_restores_witness:
  "erase_digit (placed 1 1 5) 1 1 = Return (OP_OK, static_init) \<and>
   add_digit static_init 1 1 5 = Undefined \<and>
   add_digit static_init 7 7 5 = Return (OP_OK, placed 7 7 5) \<and>
   erase_digit (placed 7 7 5) 7 7 = Return (OP_OK, static_init)"
proof -
  have nf: "\<not> fixed static_init (p, q)" for p q
    by (simp add: static_init_def)
  have e: "puzzle static_init (p, q) = 0" for p q
    by (simp add: static_init_def)
  have u: "add_digit static_init 1 1 5 = Undefined"
    by (simp add: add_digit_def in_range_def row_contains_first col_contains_first
        region_contains_def call_and_fall_off_def or_else_def static_init_def)
  have ok: "add_digit static_init 7 7 5 = Return (OP_OK, placed 7 7 5)"
    by (simp add: add_digit_def in_range_def row_contains_first col_contains_first
        region_contains_def or_else_def static_init_def placed_def)
  have "erase_digit (placed 1 1 5) 1 1 = Return (OP_OK, static_init)"
    using place_then_erase_restores [OF nf, of 1 1 5] e [of 1 1]
    by (simp add: placed_def)
  moreover have "erase_digit (placed 7 7 5) 7 7 = Return (OP_OK, static_init)"
    using place_then_erase_restores [OF nf, of 7 7 5 "placed 7 7 5"] ok
    by simp
  ultimately show ?thesis
    using u ok by simp
qed

subsection \<open>The effect of a successful place\<close>



section \<open>Further properties of the code\<close>

subsection \<open>What the three queries compute\<close>

text \<open>
  Property X1: \<open>row_contains(row, digit)\<close> always returns, and returns \<open>TRUE\<close> exactly
  when \<open>puzzle[row][1] == digit\<close>; \<open>col_contains(col, digit)\<close> always returns, and
  returns \<open>TRUE\<close> exactly when \<open>puzzle[1][col] == digit\<close>.
\<close>

theorem contains_queries_read_one_cell:
  "row_contains s row digit = Some (puzzle s (row, 1) = digit) \<and>
   col_contains s col digit = Some (puzzle s (1, col) = digit)"
  by (simp add: row_contains_def row_loop_def col_contains_def col_loop_def)

text \<open>
  Property X2: for a row and a column in 1..9, \<open>region_contains\<close> returns \<open>FALSE\<close> when the
  row is in 7..9 and the column is 7 or 8, whatever the board holds, and in every
  other case reaches its closing brace without a \<open>return\<close>.
\<close>

theorem region_contains_on_board:
  assumes "1 \<le> row" "row \<le> 9" "1 \<le> col" "col \<le> 9"
  shows "region_contains s row col digit =
           (if 7 \<le> row \<and> 7 \<le> col \<and> col \<le> 8 then Some False else None)"
proof -
  have "in_range row" "in_range col"
    using assms by (simp_all add: in_range_iff)
  from region_contains_cases [OF this] show ?thesis
    by (simp add: zle_add1_eq_le [symmetric] del: zle_add1_eq_le)
qed

theorem region_contains_on_board_witness:
  "region_contains (placed 8 8 5) 8 8 5 = Some False \<and>
   region_contains (placed 8 8 5) 9 9 5 = None"
  using region_contains_on_board [of 8 8 "placed 8 8 5" 5]
    region_contains_on_board [of 9 9 "placed 8 8 5" 5]
  by simp

subsection \<open>What \<open>add_digit\<close> and \<open>init_puzzle\<close> do\<close>

text \<open>
  Property X3: the outcome of \<open>add_digit(r, c, d)\<close> on any board. It returns
  \<open>OP_BADARGS\<close> when an argument is outside 1..9, else \<open>OP_OCCUPIED\<close> when the cell is
  not empty, else \<open>OP_ILLEGAL\<close> when \<open>puzzle[r][1]\<close> or \<open>puzzle[1][c]\<close> equals the digit,
  else \<open>OP_OK\<close> after writing the digit when the row is in 7..9 and the column is 7
  or 8; in the remaining cases it tests the result of a \<open>region_contains\<close> call that
  returned none.
\<close>

theorem add_digit_outcomes:
  "add_digit s r c d =
     (if r < 1 \<or> 9 < r \<or> c < 1 \<or> 9 < c \<or> d < 1 \<or> 9 < d then Return (OP_BADARGS, s)
      else if puzzle s (r, c) \<noteq> 0 then Return (OP_OCCUPIED, s)
      else if puzzle s (r, 1) = d \<or> puzzle s (1, c) = d then Return (OP_ILLEGAL, s)
      else if 7 \<le> r \<and> 7 \<le> c \<and> c < 9 then
        Return (OP_OK, s\<lparr>puzzle := (puzzle s)((r, c) := d)\<rparr>)
      else Undefined)"
proof (cases "in_range r \<and> in_range c")
  case True
  then show ?thesis
    by (simp add: add_digit_def row_contains_first col_contains_first or_else_Some
        region_contains_cases) (auto simp: in_range_iff)
next
  case False
  then show ?thesis
    by (auto simp: add_digit_def in_range_iff)
qed

theorem add_digit_outcomes_witness:
  "add_digit static_init 1 1 5 = Undefined \<and>
   add_digit (placed 7 1 5) 7 8 5 = Return (OP_ILLEGAL, placed 7 1 5)"
  using add_digit_outcomes [of static_init 1 1 5] add_digit_outcomes [of "placed 7 1 5" 7 8 5]
  by (simp add: static_init_def placed_def)

text \<open>
  Property X4: \<open>init_puzzle\<close> sets \<open>puzzle[i][j]\<close> to 0 for all i and j in 1..9 and
  changes no other entry of \<open>puzzle\<close>; its single write to \<open>fixed\<close> goes to index
  \<open>[10][10]\<close>, so every fixed flag of the board keeps its value.
\<close>

theorem init_puzzle_effect:
  "puzzle (init_puzzle s) (i, j) =
     (if 1 \<le> i \<and> i \<le> 9 \<and> 1 \<le> j \<and> j \<le> 9 then 0 else puzzle s (i, j)) \<and>
   fixed (init_puzzle s) = (fixed s)((10, 10) := False)"
  by (auto simp: init_puzzle_eq)

subsection \<open>Fixed cells are never empty in the running program\<close>

text \<open>
  Property X5: \<open>main\<close> calls \<open>init_puzzle\<close> once on the zeroed tables, then \<open>configure\<close>,
  then \<open>add_digit\<close> and \<open>erase_digit\<close> in any order. On every board reached that way
  each fixed cell of the 9x9 grid holds a digit other than 0.
\<close>

theorem fixed_cells_filled_in_program:
  assumes "configure (init_puzzle static_init) line_in input = Return s1"
    and "run s1 cmds = Return (ress, s2)"
  shows "fixed_cells_filled s1 \<and> fixed_cells_filled s2"
  using assms fixed_cells_filled_init configure_keeps_fixed_cells_filled
    run_keeps_fixed_cells_filled by blast

theorem fixed_cells_filled_in_program_witness:
  "fixed_cells_filled seeded_775 \<and> fixed_cells_filled (placed_on seeded_775 7 8 3)"
proof -
  have i: "init_puzzle static_init = static_init"
    by (auto simp: init_puzzle_eq static_init_def fun_eq_iff)
  have c: "configure (init_puzzle static_init) blank_line ''775\<newline>'' = Return seeded_775"
    by (simp add: i configure_775)
  have r: "run seeded_775 [Add 7 8 3] = Return ([OP_OK], placed_on seeded_775 7 8 3)"
    by (simp add: add_digit_def in_range_def row_contains_first col_contains_first
        region_contains_def or_else_def placed_on_def seeded_775_def static_init_def)
  from fixed_cells_filled_in_program [OF c r] show ?thesis .
qed

end
